theory Spec2Isabelle
  imports Complex_Main
begin

section \<open>Python values and exceptions\<close>

text \<open>
  The tools of \<^verbatim>\<open>weather.py\<close> handle decoded JSON payloads and Python dictionaries.
  A decoded payload is a value of \<open>json\<close>; a dictionary is an association list read with
  \<open>map_of\<close>; Python's \<^verbatim>\<open>None\<close> is \<open>JNull\<close>. A Python \<^verbatim>\<open>float\<close> is represented by
  the real number it denotes (negative zero and the non-finite values are not represented).
  A Python string is a list of characters, one \<open>char\<close> per code point below 256.
\<close>

datatype json =
    JNull
  | JBool bool
  | JInt int
  | JFloat real
  | JStr string
  | JList "json list"
  | JObj "(string \<times> json) list"

datatype exn =
    RequestException
  | ConnectError
  | HTTPStatusError
  | JSONDecodeError
  | ModelRetry string
  | KeyError
  | IndexError
  | TypeError
  | AttributeError
  | ValueError
  | OverflowError

text \<open>Truth value of a payload, as tested by \<^verbatim>\<open>if data:\<close>.\<close>

fun py_truthy :: "json \<Rightarrow> bool" where
  "py_truthy JNull = False"
| "py_truthy (JBool b) = b"
| "py_truthy (JInt i) = (i \<noteq> 0)"
| "py_truthy (JFloat r) = (r \<noteq> 0)"
| "py_truthy (JStr s) = (s \<noteq> [])"
| "py_truthy (JList xs) = (xs \<noteq> [])"
| "py_truthy (JObj kvs) = (kvs \<noteq> [])"

text \<open>Subscription with a string key, \<^verbatim>\<open>v['k']\<close>.\<close>

fun py_item :: "json \<Rightarrow> string \<Rightarrow> exn + json" where
  "py_item (JObj kvs) k = (case map_of kvs k of None \<Rightarrow> Inl KeyError | Some v \<Rightarrow> Inr v)"
| "py_item _ k = Inl TypeError"

text \<open>Subscription with the index zero, \<^verbatim>\<open>v[0]\<close>.\<close>

fun py_first :: "json \<Rightarrow> exn + json" where
  "py_first (JList []) = Inl IndexError"
| "py_first (JList (x # xs)) = Inr x"
| "py_first (JStr []) = Inl IndexError"
| "py_first (JStr (c # cs)) = Inr (JStr [c])"
| "py_first (JObj kvs) = Inl KeyError"
| "py_first _ = Inl TypeError"

section \<open>Dependencies and the network\<close>

record Deps =
  weather_api_key :: "string option"
  geo_api_key :: "string option"
  aqi_api_key :: "string option"

text \<open>
  The requests the tools send. The URL and its parameters are kept as the values they are
  built from.
\<close>

datatype request =
    AqiRequest "string option" real real
  | GeoRequest string string
  | WeatherRequest string real real

text \<open>
  What a request comes back with: the transport fails, the status is not a success
  (\<^verbatim>\<open>raise_for_status\<close>), the body is not JSON, or the decoded body.
\<close>

datatype response = TransportFailure | BadStatus | BadBody | Body json

type_synonym network = "request \<Rightarrow> response"

text \<open>A tool run: the requests it sent, and the exception it raised or the value it returned.\<close>

type_synonym tool_run = "request list \<times> (exn + json)"

text \<open>The \<^verbatim>\<open>httpx\<close> client of \<open>Deps\<close>: every failure is an exception of the caller.\<close>

definition client_get :: "network \<Rightarrow> request \<Rightarrow> exn + json" where
  "client_get net req =
     (case net req of
        TransportFailure \<Rightarrow> Inl ConnectError
      | BadStatus \<Rightarrow> Inl HTTPStatusError
      | BadBody \<Rightarrow> Inl JSONDecodeError
      | Body data \<Rightarrow> Inr data)"

section \<open>get_lat_lng\<close>

definition lat_lng_of_data :: "json \<Rightarrow> exn + json" where
  "lat_lng_of_data data =
     (if py_truthy data then
        (case py_first data of
           Inl e \<Rightarrow> Inl e
         | Inr d0 \<Rightarrow>
            (case py_item d0 ''lat'' of
               Inl e \<Rightarrow> Inl e
             | Inr la \<Rightarrow>
                (case py_first data of
                   Inl e \<Rightarrow> Inl e
                 | Inr d0' \<Rightarrow>
                    (case py_item d0' ''lon'' of
                       Inl e \<Rightarrow> Inl e
                     | Inr lo \<Rightarrow> Inr (JObj [(''lat'', la), (''lng'', lo)])))))
      else Inl (ModelRetry ''Could not find the location''))"

definition get_lat_lng :: "Deps \<Rightarrow> network \<Rightarrow> string \<Rightarrow> tool_run" where
  "get_lat_lng deps net location_description =
     (case geo_api_key deps of
        None \<Rightarrow> ([], Inr (JObj [(''lat'', JFloat 51.1), (''lng'', JFloat (- 0.1))]))
      | Some key \<Rightarrow>
          (let req = GeoRequest location_description key in
           ([req],
            (case client_get net req of
               Inl e \<Rightarrow> Inl e
             | Inr data \<Rightarrow> lat_lng_of_data data))))"

section \<open>get_aqi\<close>

text \<open>\<^verbatim>\<open>data.get(k)\<close>: only a dictionary has the method.\<close>

fun py_get :: "json \<Rightarrow> string \<Rightarrow> exn + json" where
  "py_get (JObj kvs) k = Inr (case map_of kvs k of None \<Rightarrow> JNull | Some v \<Rightarrow> v)"
| "py_get _ k = Inl AttributeError"

fun starts_with :: "string \<Rightarrow> string \<Rightarrow> bool" where
  "starts_with s [] = True"
| "starts_with [] (p # ps) = False"
| "starts_with (c # cs) (p # ps) = (c = p \<and> starts_with cs ps)"

fun py_substring :: "string \<Rightarrow> string \<Rightarrow> bool" where
  "py_substring p [] = (p = [])"
| "py_substring p (c # cs) = (starts_with (c # cs) p \<or> py_substring p cs)"

text \<open>
  \<^verbatim>\<open>k in v\<close> for a string \<open>k\<close>: a key of a dictionary, an element of a list, a
  substring of a string; the other values are not containers.
\<close>

fun py_contains :: "json \<Rightarrow> string \<Rightarrow> exn + bool" where
  "py_contains (JObj kvs) k = Inr (map_of kvs k \<noteq> None)"
| "py_contains (JList xs) k = Inr (List.member xs (JStr k))"
| "py_contains (JStr s) k = Inr (py_substring k s)"
| "py_contains _ k = Inl TypeError"

text \<open>
  The body of the \<^verbatim>\<open>try\<close> block once the response is decoded; \<^verbatim>\<open>and\<close> evaluates
  its operands from the left and stops at the first false one.
\<close>

definition aqi_of_data :: "json \<Rightarrow> exn + json" where
  "aqi_of_data data =
     (case py_get data ''status'' of
        Inl e \<Rightarrow> Inl e
      | Inr st \<Rightarrow>
          if st \<noteq> JStr ''ok'' then Inr JNull
          else (case py_contains data ''data'' of
                  Inl e \<Rightarrow> Inl e
                | Inr False \<Rightarrow> Inr JNull
                | Inr True \<Rightarrow>
                   (case py_item data ''data'' of
                      Inl e \<Rightarrow> Inl e
                    | Inr d \<Rightarrow>
                       (case py_contains d ''aqi'' of
                          Inl e \<Rightarrow> Inl e
                        | Inr False \<Rightarrow> Inr JNull
                        | Inr True \<Rightarrow> py_item d ''aqi''))))"

text \<open>
  \<^verbatim>\<open>requests.get\<close>, \<^verbatim>\<open>raise_for_status\<close> and \<^verbatim>\<open>response.json\<close>: each failure is a
  \<^verbatim>\<open>requests.RequestException\<close>.
\<close>

definition requests_get :: "network \<Rightarrow> request \<Rightarrow> exn + json" where
  "requests_get net req =
     (case net req of
        TransportFailure \<Rightarrow> Inl RequestException
      | BadStatus \<Rightarrow> Inl RequestException
      | BadBody \<Rightarrow> Inl RequestException
      | Body data \<Rightarrow> Inr data)"

text \<open>\<^verbatim>\<open>except requests.RequestException: return None\<close>; any other exception goes on.\<close>

fun except_request_exception :: "exn + json \<Rightarrow> exn + json" where
  "except_request_exception (Inl RequestException) = Inr JNull"
| "except_request_exception r = r"

definition get_aqi :: "Deps \<Rightarrow> network \<Rightarrow> real \<Rightarrow> real \<Rightarrow> tool_run" where
  "get_aqi deps net lat lon =
     (let req = AqiRequest (aqi_api_key deps) lat lon in
      ([req],
       except_request_exception
         (case requests_get net req of
            Inl e \<Rightarrow> Inl e
          | Inr data \<Rightarrow> aqi_of_data data)))"

section \<open>get_weather\<close>

text \<open>The degree sign (U+00B0) followed by C.\<close>

definition degree_C :: string where
  "degree_C = [CHR 0xB0, CHR ''C'']"

definition code_lookup :: "int \<Rightarrow> string option" where
  "code_lookup = map_of
     [(1000, ''Clear, Sunny''),
      (1100, ''Mostly Clear''),
      (1101, ''Partly Cloudy''),
      (1102, ''Mostly Cloudy''),
      (1001, ''Cloudy''),
      (2000, ''Fog''),
      (2100, ''Light Fog''),
      (4000, ''Drizzle''),
      (4001, ''Rain''),
      (4200, ''Light Rain''),
      (4201, ''Heavy Rain''),
      (5000, ''Snow''),
      (5001, ''Flurries''),
      (5100, ''Light Snow''),
      (5101, ''Heavy Snow''),
      (6000, ''Freezing Drizzle''),
      (6001, ''Freezing Rain''),
      (6200, ''Light Freezing Rain''),
      (6201, ''Heavy Freezing Rain''),
      (7000, ''Ice Pellets''),
      (7101, ''Heavy Ice Pellets''),
      (7102, ''Light Ice Pellets''),
      (8000, ''Thunderstorm'')]"

definition lookup_or_unknown :: "int \<Rightarrow> string" where
  "lookup_or_unknown c = (case code_lookup c of None \<Rightarrow> ''Unknown'' | Some name \<Rightarrow> name)"

text \<open>
  \<^verbatim>\<open>code_lookup.get(v, 'Unknown')\<close>: a number is looked up by its value (a float or a
  boolean equal to an integer key finds that key), a list or a dictionary cannot be hashed.
\<close>

fun code_lookup_get :: "json \<Rightarrow> exn + string" where
  "code_lookup_get (JInt c) = Inr (lookup_or_unknown c)"
| "code_lookup_get (JFloat r) =
     Inr (if r = of_int \<lfloor>r\<rfloor> then lookup_or_unknown \<lfloor>r\<rfloor> else ''Unknown'')"
| "code_lookup_get (JBool b) = Inr (lookup_or_unknown (if b then 1 else 0))"
| "code_lookup_get (JStr s) = Inr ''Unknown''"
| "code_lookup_get JNull = Inr ''Unknown''"
| "code_lookup_get (JList xs) = Inl TypeError"
| "code_lookup_get (JObj kvs) = Inl TypeError"

text \<open>Decimal digits of a natural number.\<close>

fun decimal :: "nat \<Rightarrow> string" where
  "decimal n =
     (if n < 10 then [''0123456789'' ! n]
      else decimal (n div 10) @ [''0123456789'' ! (n mod 10)])"

declare decimal.simps [simp del]

text \<open>Rounding a non-negative number to an integer, a tie going to the even neighbour.\<close>

definition round_half_even :: "real \<Rightarrow> nat" where
  "round_half_even y =
     (let f = nat \<lfloor>y\<rfloor>; d = y - of_nat f in
      if d < 1 / 2 then f
      else if 1 / 2 < d then f + 1
      else if even f then f else f + 1)"

text \<open>The format \<^verbatim>\<open>0.0f\<close> of a float: no digit after the point, the sign kept.\<close>

definition fixed0 :: "real \<Rightarrow> string" where
  "fixed0 x = (if x < 0 then ''-'' else []) @ decimal (round_half_even \<bar>x\<bar>)"

fun bit_length :: "nat \<Rightarrow> nat" where
  "bit_length n = (if n = 0 then 0 else Suc (bit_length (n div 2)))"

declare bit_length.simps [simp del]

text \<open>
  An integer is converted to a float before it is formatted: beyond 53 bits it is rounded
  to 53 significant bits, a tie going to the even neighbour, and it overflows from
  \<open>2 ^ 1024\<close> on.
\<close>

definition float_of_nat :: "nat \<Rightarrow> exn + real" where
  "float_of_nat n =
     (if bit_length n \<le> 53 then Inr (of_nat n)
      else
        (let e = bit_length n - 53;
             q = n div 2 ^ e;
             r = n mod 2 ^ e;
             h = 2 ^ (e - 1);
             q' = (if h < r \<or> (r = h \<and> odd q) then q + 1 else q);
             v = q' * 2 ^ e
         in if 2 ^ 1024 \<le> v then Inl OverflowError else Inr (of_nat v)))"

definition py_float_of_int :: "int \<Rightarrow> exn + real" where
  "py_float_of_int i =
     (case float_of_nat (nat \<bar>i\<bar>) of
        Inl e \<Rightarrow> Inl e
      | Inr r \<Rightarrow> Inr (if i < 0 then - r else r))"

fun format_0f :: "json \<Rightarrow> exn + string" where
  "format_0f (JFloat r) = Inr (fixed0 r)"
| "format_0f (JInt i) =
     (case py_float_of_int i of Inl e \<Rightarrow> Inl e | Inr r \<Rightarrow> Inr (fixed0 r))"
| "format_0f (JBool b) = Inr (fixed0 (if b then 1 else 0))"
| "format_0f (JStr s) = Inl ValueError"
| "format_0f _ = Inl TypeError"

definition weather_of_data :: "json \<Rightarrow> exn + json" where
  "weather_of_data data =
     (case py_item data ''data'' of
        Inl e \<Rightarrow> Inl e
      | Inr d \<Rightarrow>
         (case py_item d ''values'' of
            Inl e \<Rightarrow> Inl e
          | Inr vals \<Rightarrow>
             (case py_item vals ''temperatureApparent'' of
                Inl e \<Rightarrow> Inl e
              | Inr t \<Rightarrow>
                 (case format_0f t of
                    Inl e \<Rightarrow> Inl e
                  | Inr s \<Rightarrow>
                     (case py_item vals ''weatherCode'' of
                        Inl e \<Rightarrow> Inl e
                      | Inr wc \<Rightarrow>
                         (case code_lookup_get wc of
                            Inl e \<Rightarrow> Inl e
                          | Inr name \<Rightarrow>
                              Inr (JObj [(''temperature'', JStr (s @ degree_C)),
                                         (''description'', JStr name)])))))))"

definition get_weather :: "Deps \<Rightarrow> network \<Rightarrow> real \<Rightarrow> real \<Rightarrow> tool_run" where
  "get_weather deps net lat lng =
     (case weather_api_key deps of
        None \<Rightarrow>
          ([], Inr (JObj [(''temperature'', JStr (''21 '' @ degree_C)),
                          (''description'', JStr ''Sunny'')]))
      | Some key \<Rightarrow>
          (let req = WeatherRequest key lat lng in
           ([req],
            (case client_get net req of
               Inl e \<Rightarrow> Inl e
             | Inr data \<Rightarrow> weather_of_data data))))"

section \<open>The output type\<close>

record Structured_Output =
  location :: string
  temperature :: string
  aqi :: int
  description :: string

text \<open>
  The agent is declared with \<^verbatim>\<open>output_type=List[Structured_Output]\<close>: a candidate answer
  is validated against the four annotated fields of the class. The class declares no
  constraint on a field beyond its type and no configuration, so a \<^verbatim>\<open>str\<close> field takes
  any string, the \<^verbatim>\<open>int\<close> field takes what converts to an integer without loss, every
  field is required, and a key that is not a field is ignored.
\<close>

datatype validation_error =
    ListType
  | ModelType
  | Missing string
  | StringType string
  | IntType string

fun coerce_str :: "json \<Rightarrow> string option" where
  "coerce_str (JStr s) = Some s"
| "coerce_str _ = None"

definition is_digit :: "char \<Rightarrow> bool" where
  "is_digit c = (48 \<le> (of_char c :: nat) \<and> (of_char c :: nat) \<le> 57)"

definition read_decimal :: "string \<Rightarrow> nat" where
  "read_decimal s = foldl (\<lambda>a c. 10 * a + (of_char c - 48)) 0 s"

definition int_of_string :: "string \<Rightarrow> int option" where
  "int_of_string s =
     (let (neg, ds) =
        (case s of
           c # cs \<Rightarrow> if c = CHR ''-'' then (True, cs) else if c = CHR ''+'' then (False, cs)
                     else (False, s)
         | [] \<Rightarrow> (False, s))
      in if ds \<noteq> [] \<and> list_all is_digit ds
         then Some (if neg then - int (read_decimal ds) else int (read_decimal ds))
         else None)"

fun coerce_int :: "json \<Rightarrow> int option" where
  "coerce_int (JInt i) = Some i"
| "coerce_int (JBool b) = Some (if b then 1 else 0)"
| "coerce_int (JFloat r) = (if r = of_int \<lfloor>r\<rfloor> then Some \<lfloor>r\<rfloor> else None)"
| "coerce_int (JStr s) = int_of_string s"
| "coerce_int _ = None"

definition str_field :: "(string \<times> json) list \<Rightarrow> string \<Rightarrow> validation_error + string" where
  "str_field kvs k =
     (case map_of kvs k of
        None \<Rightarrow> Inl (Missing k)
      | Some v \<Rightarrow> (case coerce_str v of None \<Rightarrow> Inl (StringType k) | Some s \<Rightarrow> Inr s))"

definition int_field :: "(string \<times> json) list \<Rightarrow> string \<Rightarrow> validation_error + int" where
  "int_field kvs k =
     (case map_of kvs k of
        None \<Rightarrow> Inl (Missing k)
      | Some v \<Rightarrow> (case coerce_int v of None \<Rightarrow> Inl (IntType k) | Some i \<Rightarrow> Inr i))"

text \<open>One element; the first field in error, in the order of declaration, is reported.\<close>

fun validate_item :: "json \<Rightarrow> validation_error + Structured_Output" where
  "validate_item (JObj kvs) =
     (case str_field kvs ''location'' of
        Inl e \<Rightarrow> Inl e
      | Inr loc \<Rightarrow>
         (case str_field kvs ''temperature'' of
            Inl e \<Rightarrow> Inl e
          | Inr t \<Rightarrow>
             (case int_field kvs ''aqi'' of
                Inl e \<Rightarrow> Inl e
              | Inr a \<Rightarrow>
                 (case str_field kvs ''description'' of
                    Inl e \<Rightarrow> Inl e
                  | Inr d \<Rightarrow>
                      Inr \<lparr>location = loc, temperature = t, aqi = a, description = d\<rparr>))))"
| "validate_item _ = Inl ModelType"

fun validate_items :: "json list \<Rightarrow> validation_error + Structured_Output list" where
  "validate_items [] = Inr []"
| "validate_items (x # xs) =
     (case validate_item x of
        Inl e \<Rightarrow> Inl e
      | Inr out \<Rightarrow>
         (case validate_items xs of Inl e \<Rightarrow> Inl e | Inr outs \<Rightarrow> Inr (out # outs)))"

fun validate :: "json \<Rightarrow> validation_error + Structured_Output list" where
  "validate (JList xs) = validate_items xs"
| "validate _ = Inl ListType"







section \<open>The agent run\<close>

text \<open>The bound given to the agent: \<^verbatim>\<open>retries=2\<close>.\<close>

definition retries :: nat where
  "retries = 2"

text \<open>
  Modelled from the spec: the run loop of the agent (the Retry Controller of section 4.6
  with the Tool Dispatcher of 4.4 and the failure classes of section 7). \<^verbatim>\<open>weather.py\<close>
  obtains the loop from the \<^verbatim>\<open>pydantic_ai\<close> library, by constructing \<^verbatim>\<open>Agent\<close> and calling
  \<^verbatim>\<open>run\<close>; the loop itself is not in the source file. The planner is any function from the
  conversation so far to its next response. The tools, the output type and the bound are
  those of the source.
\<close>

datatype tool_call = ToolCall string "(string \<times> json) list"

datatype planner_response = RequestedCalls "tool_call list" | CandidateAnswer json

datatype failure_kind = Retryable | Fatal

datatype tool_result = Success json | Failure failure_kind string

datatype entry = ToolReturn tool_call tool_result | Guidance string

type_synonym planner = "entry list \<Rightarrow> planner_response"

datatype phase =
    Planning
  | Dispatching "tool_call list"
  | Validating json
  | Done "Structured_Output list"
  | Aborted

record run_state =
  phase :: phase
  retry_count :: nat
  conversation :: "entry list"

text \<open>Modelled from the spec: a tool that raises \<open>ModelRetry\<close> fails retryably with its
  text (4.4); any other exception is a fatal result (section 7).\<close>

fun result_of :: "exn + json \<Rightarrow> tool_result" where
  "result_of (Inr v) = Success v"
| "result_of (Inl (ModelRetry msg)) = Failure Retryable msg"
| "result_of (Inl e) = Failure Fatal ''tool failed''"

text \<open>Modelled from the spec: an argument declared \<^verbatim>\<open>float\<close> takes a JSON number (4.4).\<close>

fun float_argument :: "json option \<Rightarrow> real option" where
  "float_argument (Some (JFloat r)) = Some r"
| "float_argument (Some (JInt i)) = Some (of_int i)"
| "float_argument _ = None"

text \<open>Modelled from the spec: the call is resolved by name and its arguments are checked
  against the parameters of the tool; an unknown name or a mismatch is fatal (4.2, 4.4).\<close>

definition invoke :: "Deps \<Rightarrow> network \<Rightarrow> tool_call \<Rightarrow> tool_result" where
  "invoke deps net call =
     (case call of ToolCall name args \<Rightarrow>
        if name = ''get_lat_lng'' then
          (case map_of args ''location_description'' of
             Some (JStr d) \<Rightarrow> result_of (snd (get_lat_lng deps net d))
           | _ \<Rightarrow> Failure Fatal ''argument type mismatch'')
        else if name = ''get_aqi'' then
          (case (float_argument (map_of args ''lat''), float_argument (map_of args ''lon'')) of
             (Some la, Some lo) \<Rightarrow> result_of (snd (get_aqi deps net la lo))
           | _ \<Rightarrow> Failure Fatal ''argument type mismatch'')
        else if name = ''get_weather'' then
          (case (float_argument (map_of args ''lat''), float_argument (map_of args ''lng'')) of
             (Some la, Some lg) \<Rightarrow> result_of (snd (get_weather deps net la lg))
           | _ \<Rightarrow> Failure Fatal ''argument type mismatch'')
        else Failure Fatal ''unknown tool'')"

text \<open>Modelled from the spec: the calls of a round are run in their order (4.4).\<close>

definition dispatch :: "Deps \<Rightarrow> network \<Rightarrow> tool_call list \<Rightarrow> entry list" where
  "dispatch deps net calls = map (\<lambda>c. ToolReturn c (invoke deps net c)) calls"

fun is_fatal :: "entry \<Rightarrow> bool" where
  "is_fatal (ToolReturn c (Failure Fatal msg)) = True"
| "is_fatal _ = False"

fun is_retryable :: "entry \<Rightarrow> bool" where
  "is_retryable (ToolReturn c (Failure Retryable msg)) = True"
| "is_retryable _ = False"

fun hint_of :: "entry list \<Rightarrow> string" where
  "hint_of [] = []"
| "hint_of (ToolReturn c (Failure Retryable msg) # es) = msg"
| "hint_of (e # es) = hint_of es"

fun diagnostic :: "validation_error \<Rightarrow> string" where
  "diagnostic ListType = ''Input should be a valid list''"
| "diagnostic ModelType = ''Input should be an object''"
| "diagnostic (Missing k) = k @ '': Field required''"
| "diagnostic (StringType k) = k @ '': Input should be a valid string''"
| "diagnostic (IntType k) = k @ '': Input should be a valid integer''"

text \<open>
  Modelled from the spec: on a retryable failure the count goes up by one; below the bound the hint is added to the
  conversation and planning resumes, otherwise the run is aborted.
\<close>

definition retry :: "run_state \<Rightarrow> string \<Rightarrow> run_state" where
  "retry s hint =
     (let n = retry_count s + 1 in
      if n < retries
      then s\<lparr>phase := Planning, retry_count := n, conversation := conversation s @ [Guidance hint]\<rparr>
      else s\<lparr>phase := Aborted, retry_count := n\<rparr>)"

text \<open>Modelled from the spec: the transitions of section 4.6.\<close>

definition step :: "Deps \<Rightarrow> network \<Rightarrow> planner \<Rightarrow> run_state \<Rightarrow> run_state" where
  "step deps net plan s =
     (case phase s of
        Planning \<Rightarrow>
          (case plan (conversation s) of
             RequestedCalls calls \<Rightarrow> s\<lparr>phase := Dispatching calls\<rparr>
           | CandidateAnswer c \<Rightarrow> s\<lparr>phase := Validating c\<rparr>)
      | Dispatching calls \<Rightarrow>
          (let results = dispatch deps net calls;
               s' = s\<lparr>conversation := conversation s @ results\<rparr>
           in if list_ex is_fatal results then s'\<lparr>phase := Aborted\<rparr>
              else if list_ex is_retryable results then retry s' (hint_of results)
              else s'\<lparr>phase := Planning\<rparr>)
      | Validating c \<Rightarrow>
          (case validate c of
             Inr out \<Rightarrow> s\<lparr>phase := Done out\<rparr>
           | Inl e \<Rightarrow> retry s (diagnostic e))
      | Done out \<Rightarrow> s
      | Aborted \<Rightarrow> s)"

text \<open>Modelled from the spec: a run starts in \<open>Planning\<close> with an empty conversation.\<close>

definition initial_state :: run_state where
  "initial_state = \<lparr>phase = Planning, retry_count = 0, conversation = []\<rparr>"

text \<open>Modelled from the spec: the state after \<open>n\<close> transitions.\<close>

fun run :: "nat \<Rightarrow> Deps \<Rightarrow> network \<Rightarrow> planner \<Rightarrow> run_state \<Rightarrow> run_state" where
  "run 0 deps net plan s = s"
| "run (Suc n) deps net plan s = run n deps net plan (step deps net plan s)"

section \<open>Predicates and scenarios of the properties\<close>

text \<open>
  A response to the air-quality request that carries no reading: the request failed, or
  the body is an object whose status is not \<open>ok\<close>, that has no \<open>data\<close>, or whose
  \<open>data\<close> is an object without \<open>aqi\<close>.
\<close>

fun no_aqi_reading :: "response \<Rightarrow> bool" where
  "no_aqi_reading (Body (JObj kvs)) =
     (if map_of kvs ''status'' = Some (JStr ''ok'')
      then (case map_of kvs ''data'' of
              None \<Rightarrow> True
            | Some (JObj d) \<Rightarrow> map_of d ''aqi'' = None
            | Some _ \<Rightarrow> False)
      else True)"
| "no_aqi_reading (Body _) = False"
| "no_aqi_reading _ = True"


definition no_credentials :: Deps where
  "no_credentials = \<lparr>weather_api_key = None, geo_api_key = None, aqi_api_key = None\<rparr>"

definition aqi_credential_only :: Deps where
  "aqi_credential_only =
     \<lparr>weather_api_key = None, geo_api_key = None, aqi_api_key = Some ''token''\<rparr>"

definition geo_credential_only :: Deps where
  "geo_credential_only =
     \<lparr>weather_api_key = None, geo_api_key = Some ''key'', aqi_api_key = None\<rparr>"

definition weather_credential_only :: Deps where
  "weather_credential_only =
     \<lparr>weather_api_key = Some ''key'', geo_api_key = None, aqi_api_key = None\<rparr>"

text \<open>
  An air-quality service that knows one token: it answers a request with that token with a
  reading of 42 and any other air-quality request with an error status.
\<close>

fun aqi_service :: network where
  "aqi_service (AqiRequest tok lat lon) =
     (if tok = Some ''token''
      then Body (JObj [(''status'', JStr ''ok''), (''data'', JObj [(''aqi'', JInt 42)])])
      else Body (JObj [(''status'', JStr ''error''), (''data'', JStr ''Invalid key'')]))"
| "aqi_service _ = TransportFailure"

text \<open>A geocoding service that finds no place.\<close>

definition empty_geocoder :: network where
  "empty_geocoder req = Body (JList [])"

text \<open>A weather service with one reading.\<close>

definition weather_payload :: "json \<Rightarrow> json \<Rightarrow> json" where
  "weather_payload apparent code =
     JObj [(''data'',
            JObj [(''time'', JStr ''2025-01-01T00:00:00Z''),
                  (''values'',
                   JObj [(''temperature'', JFloat 24.9),
                         (''temperatureApparent'', apparent),
                         (''weatherCode'', code)])])]"

text \<open>
  A planner that asks for the coordinates of a place and, told that the place was not
  found, answers in prose.
\<close>

definition atlantis_planner :: planner where
  "atlantis_planner conv =
     (if conv = []
      then RequestedCalls
             [ToolCall ''get_lat_lng'' [(''location_description'', JStr ''Atlantis'')]]
      else CandidateAnswer (JStr ''Atlantis could not be found.''))"

text \<open>The retry count is within the bound, and at the bound only in an aborted run.\<close>

definition within_budget :: "run_state \<Rightarrow> bool" where
  "within_budget s \<longleftrightarrow>
     retry_count s \<le> retries \<and> (retry_count s = retries \<longrightarrow> phase s = Aborted)"

section \<open>Auxiliary facts\<close>

lemma digit_char_value:
  assumes "n < 10"
  shows "(of_char (''0123456789'' ! n) :: nat) = 48 + n"
proof -
  from assms have "n \<in> {0, 1, 2, 3, 4, 5, 6, 7, 8, 9}" by auto
  then show ?thesis by auto
qed

lemma read_decimal_snoc:
  "read_decimal (s @ [c]) = 10 * read_decimal s + (of_char c - 48)"
  by (simp add: read_decimal_def)

lemma read_decimal_decimal: "read_decimal (decimal n) = n"
proof (induction n rule: decimal.induct)
  case (1 n)
  show ?case
  proof (cases "n < 10")
    case True
    then show ?thesis
      by (simp add: decimal.simps [of n] read_decimal_def digit_char_value)
  next
    case False
    with 1 have "read_decimal (decimal (n div 10)) = n div 10" by simp
    with False show ?thesis
      by (simp add: decimal.simps [of n] read_decimal_snoc digit_char_value)
  qed
qed

lemma round_half_even_near:
  assumes "0 \<le> y"
  shows "\<bar>y - real (round_half_even y)\<bar> \<le> 1 / 2"
proof -
  define f where "f = nat \<lfloor>y\<rfloor>"
  have "real f = of_int \<lfloor>y\<rfloor>"
    unfolding f_def using assms by simp
  then have lo: "real f \<le> y" and hi: "y < real f + 1"
    by linarith+
  show ?thesis
    unfolding round_half_even_def Let_def f_def [symmetric]
    using lo hi by (auto simp: abs_if)
qed

lemma bit_length_bound: "n < 2 ^ k \<Longrightarrow> bit_length n \<le> k"
proof (induction k arbitrary: n)
  case 0
  then show ?case by (simp add: bit_length.simps [of 0])
next
  case (Suc k)
  then have "n div 2 < 2 ^ k" by auto
  then have "bit_length (n div 2) \<le> k" by (rule Suc.IH)
  then show ?case by (simp add: bit_length.simps [of n])
qed

lemma py_float_of_int_exact:
  assumes "\<bar>i\<bar> < 2 ^ 53"
  shows "py_float_of_int i = Inr (of_int i)"
proof -
  from assms have "nat \<bar>i\<bar> < 2 ^ 53" by (simp add: nat_less_iff)
  then have "bit_length (nat \<bar>i\<bar>) \<le> 53" by (rule bit_length_bound)
  then show ?thesis by (simp add: py_float_of_int_def float_of_nat_def)
qed

lemma get_weather_live:
  assumes "weather_api_key deps = Some key"
    and "net (WeatherRequest key lat lng) = Body (JObj payload)"
    and "map_of payload ''data'' = Some (JObj d)"
    and "map_of d ''values'' = Some (JObj vals)"
    and "map_of vals ''temperatureApparent'' = Some t"
    and "format_0f t = Inr s"
    and "map_of vals ''weatherCode'' = Some wc"
    and "code_lookup_get wc = Inr name"
  shows "get_weather deps net lat lng
           = ([WeatherRequest key lat lng],
              Inr (JObj [(''temperature'', JStr (s @ [CHR 0xB0, CHR ''C''])),
                         (''description'', JStr name)]))"
  using assms
  by (simp add: get_weather_def client_get_def weather_of_data_def degree_C_def)

lemma get_aqi_no_reading:
  assumes "no_aqi_reading (net (AqiRequest (aqi_api_key deps) lat lon))"
  shows "get_aqi deps net lat lon = ([AqiRequest (aqi_api_key deps) lat lon], Inr JNull)"
proof (cases "net (AqiRequest (aqi_api_key deps) lat lon)")
  case (Body data)
  with assms show ?thesis
    by (cases data)
       (auto simp: get_aqi_def requests_get_def aqi_of_data_def
             split: option.splits json.splits if_splits)
qed (simp_all add: get_aqi_def requests_get_def)

lemma format_0f_example: "format_0f (JFloat 21.4) = Inr ''21''"
  by code_simp





lemma retry_within_budget:
  assumes "retry_count s < retries"
  shows "within_budget (retry s hint)"
  using assms by (auto simp: within_budget_def retry_def Let_def)

lemma step_within_budget:
  assumes "within_budget s"
  shows "within_budget (step deps net plan s)"
proof (cases "phase s")
  case Planning
  with assms show ?thesis
    by (auto simp: within_budget_def step_def split: planner_response.splits)
next
  case (Dispatching calls)
  with assms have "retry_count s < retries" by (auto simp: within_budget_def)
  then have "within_budget
      (retry (s\<lparr>conversation := conversation s @ dispatch deps net calls\<rparr>)
         (hint_of (dispatch deps net calls)))"
    by (intro retry_within_budget) simp
  with assms Dispatching show ?thesis
    by (auto simp: within_budget_def step_def Let_def)
next
  case (Validating c)
  with assms have "retry_count s < retries" by (auto simp: within_budget_def)
  then have "within_budget (retry s hint)" for hint
    by (rule retry_within_budget)
  with assms Validating show ?thesis
    by (auto simp: within_budget_def step_def split: sum.splits)
next
  case (Done out)
  with assms show ?thesis by (simp add: step_def)
next
  case Aborted
  with assms show ?thesis by (simp add: step_def)
qed

lemma run_within_budget:
  "within_budget s \<Longrightarrow> within_budget (run n deps net plan s)"
  by (induction n arbitrary: s) (simp_all add: step_within_budget)

lemma initial_within_budget: "within_budget initial_state"
  by (simp add: within_budget_def initial_state_def retries_def)

lemma step_dispatching_retryable:
  assumes "phase s = Dispatching calls"
    and "\<not> list_ex is_fatal (dispatch deps net calls)"
    and "list_ex is_retryable (dispatch deps net calls)"
  shows "retry_count (step deps net plan s) = retry_count s + 1"
  using assms by (simp add: step_def Let_def retry_def)

lemma step_validating_error_count:
  assumes "phase s = Validating c" and "validate c = Inl e"
  shows "retry_count (step deps net plan s) = retry_count s + 1"
  using assms by (simp add: step_def retry_def Let_def)

section \<open>Properties of the tools\<close>

text \<open>
  C5. Without a geocoding credential \<open>get_lat_lng\<close> returns the coordinate
  \<open>{lat: 51.1, lng: -0.1}\<close> whatever the location description, and without a weather
  credential \<open>get_weather\<close> returns the reading \<open>{temperature: '21 \<degree>C', description:
  'Sunny'}\<close> whatever the coordinates; in both cases no request is sent.
\<close>

theorem fallback_without_credential:
  "(geo_api_key deps = None \<longrightarrow>
      get_lat_lng deps net location_description
        = ([], Inr (JObj [(''lat'', JFloat 51.1), (''lng'', JFloat (- 0.1))])))
   \<and> (weather_api_key deps = None \<longrightarrow>
      get_weather deps net lat lng
        = ([], Inr (JObj [(''temperature'',
                           JStr [CHR ''2'', CHR ''1'', CHR '' '', CHR 0xB0, CHR ''C'']),
                          (''description'', JStr ''Sunny'')])))"
  by (simp add: get_lat_lng_def get_weather_def degree_C_def)

theorem fallback_without_credential_witness:
  "geo_api_key no_credentials = None \<and> weather_api_key no_credentials = None
   \<and> get_lat_lng no_credentials aqi_service ''Amsterdam''
        = ([], Inr (JObj [(''lat'', JFloat 51.1), (''lng'', JFloat (- 0.1))]))
   \<and> get_weather no_credentials aqi_service 51.1 (- 0.1)
        = ([], Inr (JObj [(''temperature'',
                           JStr [CHR ''2'', CHR ''1'', CHR '' '', CHR 0xB0, CHR ''C'']),
                          (''description'', JStr ''Sunny'')]))"
  using fallback_without_credential
    [of no_credentials aqi_service "''Amsterdam''" "51.1" "- 0.1"]
  by (simp add: no_credentials_def)

text \<open>
  C6. With a geocoding credential configured, when the lookup succeeds and its result set
  is empty, \<open>get_lat_lng\<close> raises \<open>ModelRetry\<close> with the text "Could not find the
  location": it returns no value and raises no other exception.
\<close>

theorem get_lat_lng_empty_result_retry:
  assumes "geo_api_key deps = Some key"
    and "net (GeoRequest location_description key) = Body (JList [])"
  shows "snd (get_lat_lng deps net location_description)
           = Inl (ModelRetry ''Could not find the location'')"
  using assms by (simp add: get_lat_lng_def client_get_def lat_lng_of_data_def)

theorem get_lat_lng_empty_result_retry_witness:
  "geo_api_key geo_credential_only = Some ''key''
   \<and> empty_geocoder (GeoRequest ''Atlantis'' ''key'') = Body (JList [])
   \<and> snd (get_lat_lng geo_credential_only empty_geocoder ''Atlantis'')
       = Inl (ModelRetry ''Could not find the location'')"
  using get_lat_lng_empty_result_retry
    [of geo_credential_only "''key''" empty_geocoder "''Atlantis''"]
  by (simp add: geo_credential_only_def empty_geocoder_def)

text \<open>
  C9. With a geocoding credential configured, when the lookup returns a list that is not
  empty, \<open>get_lat_lng\<close> returns the coordinates of its first element (what that element
  holds under \<open>lat\<close> and \<open>lon\<close>); the other elements have no part in the result.
\<close>

theorem get_lat_lng_first_match:
  assumes "geo_api_key deps = Some key"
    and "net (GeoRequest location_description key) = Body (JList (JObj kvs # others))"
    and "map_of kvs ''lat'' = Some la"
    and "map_of kvs ''lon'' = Some lo"
  shows "get_lat_lng deps net location_description
           = ([GeoRequest location_description key], Inr (JObj [(''lat'', la), (''lng'', lo)]))"
  using assms by (simp add: get_lat_lng_def client_get_def lat_lng_of_data_def)

theorem get_lat_lng_first_match_witness:
  "geo_api_key geo_credential_only = Some ''key''
   \<and> map_of [(''lat'', JStr ''52.37''), (''lon'', JStr ''4.89'')] ''lat'' = Some (JStr ''52.37'')
   \<and> map_of [(''lat'', JStr ''52.37''), (''lon'', JStr ''4.89'')] ''lon'' = Some (JStr ''4.89'')
   \<and> get_lat_lng geo_credential_only
        (\<lambda>req. Body (JList [JObj [(''lat'', JStr ''52.37''), (''lon'', JStr ''4.89'')],
                            JObj [(''lat'', JStr ''42.94''), (''lon'', JStr ''-74.19'')]]))
        ''Amsterdam''
       = ([GeoRequest ''Amsterdam'' ''key''],
          Inr (JObj [(''lat'', JStr ''52.37''), (''lng'', JStr ''4.89'')]))"
  using get_lat_lng_first_match
    [of geo_credential_only "''key''"
        "\<lambda>req. Body (JList [JObj [(''lat'', JStr ''52.37''), (''lon'', JStr ''4.89'')],
                            JObj [(''lat'', JStr ''42.94''), (''lon'', JStr ''-74.19'')]])"
        "''Amsterdam''" "[(''lat'', JStr ''52.37''), (''lon'', JStr ''4.89'')]"
        "[JObj [(''lat'', JStr ''42.94''), (''lon'', JStr ''-74.19'')]]"
        "JStr ''52.37''" "JStr ''4.89''"]
  by (simp add: geo_credential_only_def)

text \<open>
  C7, as a counterexample to the claim as it is stated: a response with status \<open>ok\<close> whose
  \<open>data\<close> is \<open>null\<close> lacks the \<open>aqi\<close> field, and \<open>get_aqi\<close> raises \<open>TypeError\<close> on it,
  which the handler for \<open>RequestException\<close> does not catch.
\<close>

theorem get_aqi_raises_on_null_data:
  "snd (get_aqi no_credentials
          (\<lambda>req. Body (JObj [(''status'', JStr ''ok''), (''data'', JNull)])) 52.4 4.9)
     = Inl TypeError"
  by (simp add: get_aqi_def requests_get_def aqi_of_data_def)

text \<open>
  C7, amended. \<open>get_aqi\<close> returns \<open>None\<close>, and raises nothing, when the request fails
  (transport, status or undecodable body) and when the body is an object whose status is
  not \<open>ok\<close>, that has no \<open>data\<close>, or whose \<open>data\<close> is an object without \<open>aqi\<close>.
\<close>

theorem get_aqi_absent_on_upstream_failure:
  assumes "no_aqi_reading (net (AqiRequest (aqi_api_key deps) lat lon))"
  shows "snd (get_aqi deps net lat lon) = Inr JNull"
  using assms by (simp add: get_aqi_no_reading)

theorem get_aqi_absent_on_upstream_failure_witness:
  "no_aqi_reading (aqi_service (AqiRequest (aqi_api_key no_credentials) 52.4 4.9))
   \<and> no_aqi_reading
        ((\<lambda>req. BadStatus) (AqiRequest (aqi_api_key aqi_credential_only) 52.4 4.9))
   \<and> snd (get_aqi no_credentials aqi_service 52.4 4.9) = Inr JNull
   \<and> snd (get_aqi aqi_credential_only (\<lambda>req. BadStatus) 52.4 4.9) = Inr JNull"
  using get_aqi_absent_on_upstream_failure [of aqi_service no_credentials "52.4" "4.9"]
    get_aqi_absent_on_upstream_failure [of "\<lambda>req. BadStatus" aqi_credential_only "52.4" "4.9"]
  by (simp add: no_credentials_def)

text \<open>
  C8. \<open>get_weather\<close> maps the numeric weather code through the finite table
  \<open>code_lookup\<close>: a code of the table gives its name, and every code that is not in the
  table gives the description "Unknown", the tool returning normally.
\<close>

theorem weather_code_vocabulary:
  assumes "weather_api_key deps = Some key"
    and "net (WeatherRequest key lat lng) = Body (JObj payload)"
    and "map_of payload ''data'' = Some (JObj d)"
    and "map_of d ''values'' = Some (JObj vals)"
    and "map_of vals ''temperatureApparent'' = Some t"
    and "format_0f t = Inr s"
    and "map_of vals ''weatherCode'' = Some (JInt c)"
  shows "finite (dom code_lookup)
    \<and> (code_lookup c = None \<longrightarrow>
         snd (get_weather deps net lat lng)
           = Inr (JObj [(''temperature'', JStr (s @ [CHR 0xB0, CHR ''C''])),
                        (''description'', JStr ''Unknown'')]))
    \<and> (\<forall>name. code_lookup c = Some name \<longrightarrow>
         snd (get_weather deps net lat lng)
           = Inr (JObj [(''temperature'', JStr (s @ [CHR 0xB0, CHR ''C''])),
                        (''description'', JStr name)]))"
proof -
  have "finite (dom code_lookup)"
    unfolding code_lookup_def by (rule finite_dom_map_of)
  moreover have "snd (get_weather deps net lat lng)
      = Inr (JObj [(''temperature'', JStr (s @ [CHR 0xB0, CHR ''C''])),
                   (''description'', JStr (lookup_or_unknown c))])"
    using assms
    by (simp add: get_weather_live [of deps key net lat lng payload d vals t s "JInt c"])
  ultimately show ?thesis by (simp add: lookup_or_unknown_def)
qed


theorem weather_code_vocabulary_witness:
  "weather_api_key weather_credential_only = Some ''key''
   \<and> code_lookup 9999 = None
   \<and> code_lookup 4001 = Some ''Rain''
   \<and> snd (get_weather weather_credential_only
             (\<lambda>req. Body (weather_payload (JFloat 21.4) (JInt 9999))) 52.4 4.9)
       = Inr (JObj [(''temperature'', JStr [CHR ''2'', CHR ''1'', CHR 0xB0, CHR ''C'']),
                    (''description'', JStr ''Unknown'')])
   \<and> snd (get_weather weather_credential_only
             (\<lambda>req. Body (weather_payload (JFloat 21.4) (JInt 4001))) 52.4 4.9)
       = Inr (JObj [(''temperature'', JStr [CHR ''2'', CHR ''1'', CHR 0xB0, CHR ''C'']),
                    (''description'', JStr ''Rain'')])"
  using weather_code_vocabulary
    [of weather_credential_only "''key''"
        "\<lambda>req. Body (weather_payload (JFloat 21.4) (JInt 9999))" "52.4" "4.9"
        "[(''data'',
            JObj [(''time'', JStr ''2025-01-01T00:00:00Z''),
                  (''values'',
                   JObj [(''temperature'', JFloat 24.9),
                         (''temperatureApparent'', JFloat 21.4),
                         (''weatherCode'', JInt 9999)])])]"
        "[(''time'', JStr ''2025-01-01T00:00:00Z''),
          (''values'',
           JObj [(''temperature'', JFloat 24.9),
                 (''temperatureApparent'', JFloat 21.4),
                 (''weatherCode'', JInt 9999)])]"
        "[(''temperature'', JFloat 24.9),
          (''temperatureApparent'', JFloat 21.4),
          (''weatherCode'', JInt 9999)]"
        "JFloat 21.4" "''21''" "9999"]
    weather_code_vocabulary
    [of weather_credential_only "''key''"
        "\<lambda>req. Body (weather_payload (JFloat 21.4) (JInt 4001))" "52.4" "4.9"
        "[(''data'',
            JObj [(''time'', JStr ''2025-01-01T00:00:00Z''),
                  (''values'',
                   JObj [(''temperature'', JFloat 24.9),
                         (''temperatureApparent'', JFloat 21.4),
                         (''weatherCode'', JInt 4001)])])]"
        "[(''time'', JStr ''2025-01-01T00:00:00Z''),
          (''values'',
           JObj [(''temperature'', JFloat 24.9),
                 (''temperatureApparent'', JFloat 21.4),
                 (''weatherCode'', JInt 4001)])]"
        "[(''temperature'', JFloat 24.9),
          (''temperatureApparent'', JFloat 21.4),
          (''weatherCode'', JInt 4001)]"
        "JFloat 21.4" "''21''" "4001"]
    format_0f_example
  by (simp add: weather_credential_only_def weather_payload_def code_lookup_def)

text \<open>
  C10. With a weather credential configured and a successful upstream call, the
  temperature string is made from \<open>temperatureApparent\<close> alone (the \<open>temperature\<close> entry
  of the payload has no part in it): the sign, the decimal digits of the value rounded to
  an integer, a tie going to the even neighbour, and the suffix \<open>\<degree>C\<close>. The digits read
  back as that integer, which is within one half of the value.
\<close>

theorem get_weather_apparent_temperature:
  assumes "weather_api_key deps = Some key"
    and "net (WeatherRequest key lat lng) = Body (JObj payload)"
    and "map_of payload ''data'' = Some (JObj d)"
    and "map_of d ''values'' = Some (JObj vals)"
    and "map_of vals ''temperatureApparent'' = Some t"
    and "t = JFloat x \<or> (\<exists>i. t = JInt i \<and> \<bar>i\<bar> < 2 ^ 53 \<and> x = of_int i)"
    and "map_of vals ''weatherCode'' = Some wc"
    and "code_lookup_get wc = Inr name"
  shows "snd (get_weather deps net lat lng)
           = Inr (JObj [(''temperature'',
                         JStr ((if x < 0 then ''-'' else []) @ decimal (round_half_even \<bar>x\<bar>)
                               @ [CHR 0xB0, CHR ''C''])),
                        (''description'', JStr name)])
    \<and> read_decimal (decimal (round_half_even \<bar>x\<bar>)) = round_half_even \<bar>x\<bar>
    \<and> \<bar>\<bar>x\<bar> - real (round_half_even \<bar>x\<bar>)\<bar> \<le> 1 / 2"
proof -
  from assms(6) have "format_0f t = Inr (fixed0 x)"
    by (auto simp: py_float_of_int_exact)
  with assms have "snd (get_weather deps net lat lng)
      = Inr (JObj [(''temperature'', JStr (fixed0 x @ [CHR 0xB0, CHR ''C''])),
                   (''description'', JStr name)])"
    by (simp add: get_weather_live [of deps key net lat lng payload d vals t "fixed0 x" wc name])
  then have "snd (get_weather deps net lat lng)
      = Inr (JObj [(''temperature'',
                    JStr ((if x < 0 then ''-'' else []) @ decimal (round_half_even \<bar>x\<bar>)
                          @ [CHR 0xB0, CHR ''C''])),
                   (''description'', JStr name)])"
    by (simp add: fixed0_def)
  moreover have "read_decimal (decimal (round_half_even \<bar>x\<bar>)) = round_half_even \<bar>x\<bar>"
    by (rule read_decimal_decimal)
  moreover have "\<bar>\<bar>x\<bar> - real (round_half_even \<bar>x\<bar>)\<bar> \<le> 1 / 2"
    by (rule round_half_even_near) simp
  ultimately show ?thesis by blast
qed


theorem get_weather_apparent_temperature_witness:
  "weather_api_key weather_credential_only = Some ''key''
   \<and> snd (get_weather weather_credential_only
             (\<lambda>req. Body (weather_payload (JFloat 21.4) (JInt 1000))) 52.4 4.9)
       = Inr (JObj [(''temperature'',
                     JStr (decimal (round_half_even 21.4) @ [CHR 0xB0, CHR ''C''])),
                    (''description'', JStr ''Clear, Sunny'')])
   \<and> decimal (round_half_even 21.4) = ''21''"
proof -
  have d: "decimal (round_half_even 21.4) = ''21''"
    by code_simp
  have "snd (get_weather weather_credential_only
             (\<lambda>req. Body (weather_payload (JFloat 21.4) (JInt 1000))) 52.4 4.9)
       = Inr (JObj [(''temperature'',
                     JStr (decimal (round_half_even 21.4) @ [CHR 0xB0, CHR ''C''])),
                    (''description'', JStr ''Clear, Sunny'')])"
    using get_weather_apparent_temperature
      [of weather_credential_only "''key''"
          "\<lambda>req. Body (weather_payload (JFloat 21.4) (JInt 1000))" "52.4" "4.9"
          "[(''data'',
              JObj [(''time'', JStr ''2025-01-01T00:00:00Z''),
                    (''values'',
                     JObj [(''temperature'', JFloat 24.9),
                           (''temperatureApparent'', JFloat 21.4),
                           (''weatherCode'', JInt 1000)])])]"
          "[(''time'', JStr ''2025-01-01T00:00:00Z''),
            (''values'',
             JObj [(''temperature'', JFloat 24.9),
                   (''temperatureApparent'', JFloat 21.4),
                   (''weatherCode'', JInt 1000)])]"
          "[(''temperature'', JFloat 24.9),
            (''temperatureApparent'', JFloat 21.4),
            (''weatherCode'', JInt 1000)]"
          "JFloat 21.4" "21.4" "JInt 1000" "''Clear, Sunny''"]
    by (simp add: weather_credential_only_def weather_payload_def code_lookup_def
          lookup_or_unknown_def)
  with d show ?thesis by (simp add: weather_credential_only_def)
qed

text \<open>
  C4, at a failing input. With all three credentials absent \<open>get_lat_lng\<close> and
  \<open>get_weather\<close> return their fixed values and send no request, as the claim says of
  each tool. \<open>get_aqi\<close> tests no credential: it sends its request with the absent token,
  and what it does is decided by the response. On the body with status \<open>ok\<close> and \<open>data\<close>
  \<open>null\<close> it raises \<open>TypeError\<close>, so the tool fails where the claim has it return a
  fallback value.
\<close>

theorem get_aqi_without_credential_sends_request_and_fails:
  "get_lat_lng no_credentials
     (\<lambda>req. Body (JObj [(''status'', JStr ''ok''), (''data'', JNull)])) ''Amsterdam''
     = ([], Inr (JObj [(''lat'', JFloat 51.1), (''lng'', JFloat (- 0.1))]))
   \<and> get_weather no_credentials
       (\<lambda>req. Body (JObj [(''status'', JStr ''ok''), (''data'', JNull)])) 51.1 (- 0.1)
     = ([], Inr (JObj [(''temperature'',
                        JStr [CHR ''2'', CHR ''1'', CHR '' '', CHR 0xB0, CHR ''C'']),
                       (''description'', JStr ''Sunny'')]))
   \<and> get_aqi no_credentials
       (\<lambda>req. Body (JObj [(''status'', JStr ''ok''), (''data'', JNull)])) 51.1 (- 0.1)
     = ([AqiRequest None 51.1 (- 0.1)], Inl TypeError)"
  by (simp add: no_credentials_def get_lat_lng_def get_weather_def degree_C_def
        get_aqi_def requests_get_def aqi_of_data_def)

section \<open>Properties of the output type\<close>




text \<open>
  C3, as a counterexample to the claim as it is stated: a candidate that writes the absent
  reading into \<open>aqi\<close> is rejected, so the field cannot represent it.
\<close>

theorem validate_rejects_absent_aqi:
  "validate (JList [JObj [(''location'', JStr ''Amsterdam''),
                          (''temperature'', JStr [CHR ''2'', CHR ''1'', CHR '' '', CHR 0xB0, CHR ''C'']),
                          (''aqi'', JNull),
                          (''description'', JStr ''Sunny'')]])
     = Inl (IntType ''aqi'')"
  by (simp add: str_field_def int_field_def)

text \<open>
  C3, amended. When the air-quality lookup gives no reading, \<open>get_aqi\<close> returns \<open>None\<close>
  as a value and raises nothing. The \<open>aqi\<close> field is a required integer: a candidate with
  \<open>null\<close> there, or without the field, is rejected. The schema stays satisfiable, since
  the same candidate with any integer under \<open>aqi\<close> is accepted.
\<close>

theorem absent_aqi_returned_but_not_representable:
  assumes "no_aqi_reading (net (AqiRequest (aqi_api_key deps) lat lon))"
  shows "snd (get_aqi deps net lat lon) = Inr JNull
   \<and> validate (JList [JObj [(''location'', JStr loc), (''temperature'', JStr t),
                            (''aqi'', JNull), (''description'', JStr d)]])
       = Inl (IntType ''aqi'')
   \<and> validate (JList [JObj [(''location'', JStr loc), (''temperature'', JStr t),
                            (''description'', JStr d)]])
       = Inl (Missing ''aqi'')
   \<and> (\<forall>i. validate (JList [JObj [(''location'', JStr loc), (''temperature'', JStr t),
                                 (''aqi'', JInt i), (''description'', JStr d)]])
           = Inr [\<lparr>location = loc, temperature = t, aqi = i, description = d\<rparr>])"
  using assms by (simp add: get_aqi_no_reading str_field_def int_field_def)

theorem absent_aqi_returned_but_not_representable_witness:
  "no_aqi_reading (aqi_service (AqiRequest (aqi_api_key no_credentials) 51.1 (- 0.1)))
   \<and> snd (get_aqi no_credentials aqi_service 51.1 (- 0.1)) = Inr JNull
   \<and> validate (JList [JObj [(''location'', JStr ''Amsterdam''), (''temperature'', JStr ''21''),
                            (''aqi'', JNull), (''description'', JStr ''Sunny'')]])
       = Inl (IntType ''aqi'')
   \<and> validate (JList [JObj [(''location'', JStr ''Amsterdam''), (''temperature'', JStr ''21''),
                            (''aqi'', JInt 0), (''description'', JStr ''Sunny'')]])
       = Inr [\<lparr>location = ''Amsterdam'', temperature = ''21'', aqi = 0, description = ''Sunny''\<rparr>]"
  using absent_aqi_returned_but_not_representable
    [of aqi_service no_credentials "51.1" "- 0.1" "''Amsterdam''" "''21''" "''Sunny''"]
  by (simp add: no_credentials_def)

section \<open>Properties of the agent run\<close>

text \<open>
  C1. The bound on retries is the one constant 2. In every run the retry count never
  exceeds it, and a run whose count has reached it is aborted, which is final. The one
  count is raised by a dispatch round with a retryable tool failure and by a validation
  error alike.
\<close>

theorem retry_budget_shared_and_bounded:
  "retries = 2
   \<and> retry_count (run n deps net plan initial_state) \<le> retries
   \<and> (retry_count (run n deps net plan initial_state) = retries \<longrightarrow>
        phase (run n deps net plan initial_state) = Aborted)
   \<and> (\<forall>s. phase s = Aborted \<longrightarrow> step deps net plan s = s)
   \<and> (\<forall>s calls. phase s = Dispatching calls
          \<and> \<not> list_ex is_fatal (dispatch deps net calls)
          \<and> list_ex is_retryable (dispatch deps net calls) \<longrightarrow>
        retry_count (step deps net plan s) = retry_count s + 1)
   \<and> (\<forall>s c e. phase s = Validating c \<and> validate c = Inl e \<longrightarrow>
        retry_count (step deps net plan s) = retry_count s + 1)"
proof -
  have "within_budget (run n deps net plan initial_state)"
    by (rule run_within_budget) (rule initial_within_budget)
  then have "retry_count (run n deps net plan initial_state) \<le> retries"
    and "retry_count (run n deps net plan initial_state) = retries \<longrightarrow>
        phase (run n deps net plan initial_state) = Aborted"
    by (simp_all add: within_budget_def)
  moreover have "\<forall>s. phase s = Aborted \<longrightarrow> step deps net plan s = s"
    by (simp add: step_def)
  ultimately show ?thesis
    by (simp add: retries_def step_dispatching_retryable step_validating_error_count)
qed

theorem retry_budget_shared_and_bounded_witness:
  "retry_count (run 3 geo_credential_only empty_geocoder atlantis_planner initial_state) = 1
   \<and> phase (run 3 geo_credential_only empty_geocoder atlantis_planner initial_state)
       = Validating (JStr ''Atlantis could not be found.'')
   \<and> retry_count (run 4 geo_credential_only empty_geocoder atlantis_planner initial_state)
       = retries
   \<and> phase (run 4 geo_credential_only empty_geocoder atlantis_planner initial_state)
       = Aborted"
proof -
  have a: "retry_count (run 3 geo_credential_only empty_geocoder atlantis_planner initial_state) = 1"
    by code_simp
  have b: "phase (run 3 geo_credential_only empty_geocoder atlantis_planner initial_state)
       = Validating (JStr ''Atlantis could not be found.'')"
    by code_simp
  have c: "retry_count (run 4 geo_credential_only empty_geocoder atlantis_planner initial_state)
       = retries"
    by code_simp
  from c retry_budget_shared_and_bounded
         [of 4 geo_credential_only empty_geocoder atlantis_planner]
  have "phase (run 4 geo_credential_only empty_geocoder atlantis_planner initial_state)
       = Aborted"
    by blast
  with a b c show ?thesis by blast
qed

end
